theory Spec2Isabelle
  imports Complex_Main
begin

section \<open>Indoor AR tracking: step detection and dead reckoning\<close>

text \<open>
  The development embeds the pedestrian dead-reckoning core of
  \<^verbatim>\<open>index_indoor.js\<close>: the adaptive \<^verbatim>\<open>StepDetector\<close> (peak detection with a
  low-pass filter), the simple fixed-threshold \<^verbatim>\<open>StepDetector\<close> of the older
  variants, the \<^verbatim>\<open>IndoorPositionTracker\<close> and the heading calibration of
  \<^verbatim>\<open>DeviceOrientationController\<close>.

  JavaScript numbers are modelled as real numbers: rounding, infinities and NaN of
  IEEE doubles are outside the model, except where an operation of the source yields
  NaN on a well-formed input; there the model returns \<open>None\<close>. Counters are natural
  numbers and clock readings (\<^verbatim>\<open>Date.now()\<close>, milliseconds) are integers. Every
  method takes the object's state and returns the new state; the reading of the
  clock is an argument of the method that reads it. Console output is dropped.
\<close>

subsection \<open>Adaptive step detector: state\<close>

record acceleration =
  acc_x :: real
  acc_y :: real
  acc_z :: real

record StepDetector =
  magnitudeHistory :: "real list"
  historySize :: nat
  useFilter :: bool
  filterAlpha :: real
  filteredMagnitude :: real
  rawMagnitudeHistory :: "real list"
  baseThreshold :: real
  dynamicThreshold :: real
  avgMagnitude :: real
  magnitudeStdDev :: real
  lastPeakTime :: int
  minPeakInterval :: int
  lastMagnitude :: real
  lastDelta :: real
  stepCount :: nat
  enabled :: bool
  totalSamples :: nat
  falsePositiveFilter :: bool

text \<open>The constructor of the adaptive \<^verbatim>\<open>StepDetector\<close>.\<close>

definition new_StepDetector :: StepDetector where
  "new_StepDetector =
     \<lparr> magnitudeHistory = [], historySize = 10,
       useFilter = True, filterAlpha = 0.5, filteredMagnitude = 9.8,
       rawMagnitudeHistory = [],
       baseThreshold = 10.5, dynamicThreshold = 10.5,
       avgMagnitude = 9.8, magnitudeStdDev = 1.0,
       lastPeakTime = 0, minPeakInterval = 500,
       lastMagnitude = 0, lastDelta = 0, stepCount = 0, enabled = True,
       totalSamples = 0, falsePositiveFilter = False \<rparr>"

subsection \<open>Adaptive step detector: update\<close>

text \<open>\<^verbatim>\<open>Math.sqrt(acceleration.x ** 2 + acceleration.y ** 2 + acceleration.z ** 2)\<close>\<close>

definition rawMagnitude_of :: "acceleration \<Rightarrow> real" where
  "rawMagnitude_of a = sqrt ((acc_x a)\<^sup>2 + (acc_y a)\<^sup>2 + (acc_z a)\<^sup>2)"

text \<open>\<^verbatim>\<open>Array.prototype.shift\<close>: drops the first element; nothing happens on \<open>[]\<close>.\<close>

definition shift :: "'a list \<Rightarrow> 'a list" where
  "shift xs = tl xs"

text \<open>
  The low-pass filter block: with the filter on, the exponential moving average is
  stored and becomes the magnitude, and the raw value is pushed on a buffer of at
  most five entries; with the filter off the magnitude is the raw value.
\<close>

definition apply_filter :: "StepDetector \<Rightarrow> real \<Rightarrow> real \<times> StepDetector" where
  "apply_filter d rawMagnitude =
     (if useFilter d then
        let f = filterAlpha d * rawMagnitude + (1 - filterAlpha d) * filteredMagnitude d;
            rh = rawMagnitudeHistory d @ [rawMagnitude]
        in (f, d\<lparr> filteredMagnitude := f,
                  rawMagnitudeHistory := (if length rh > 5 then shift rh else rh) \<rparr>)
      else (rawMagnitude, d))"

text \<open>Push on the sliding window, evict the oldest entry on overflow, count the sample.\<close>

definition push_history :: "StepDetector \<Rightarrow> real \<Rightarrow> StepDetector" where
  "push_history d magnitude =
     (let h = magnitudeHistory d @ [magnitude]
      in d\<lparr> magnitudeHistory := (if length h > historySize d then shift h else h),
             totalSamples := totalSamples d + 1 \<rparr>)"

text \<open>
  Every tenth sample the mean and the standard deviation of the window are
  recomputed (the two \<^verbatim>\<open>reduce\<close> calls are left folds from 0) and the dynamic
  threshold becomes \<^verbatim>\<open>Math.max(baseThreshold, avgMagnitude + 1 * magnitudeStdDev)\<close>.
\<close>

definition update_threshold :: "StepDetector \<Rightarrow> StepDetector" where
  "update_threshold d =
     (if totalSamples d mod 10 = 0 then
        let h = magnitudeHistory d;
            avg = foldl (\<lambda>a b. a + b) 0 h / real (length h);
            variance = foldl (\<lambda>sum val. sum + (val - avg)\<^sup>2) 0 h / real (length h);
            sd = sqrt variance
        in d\<lparr> avgMagnitude := avg, magnitudeStdDev := sd,
               dynamicThreshold := max (baseThreshold d) (avg + 1 * sd) \<rparr>
      else d)"

text \<open>The candidate-peak condition \<^verbatim>\<open>isPeak\<close>, with \<open>delta = magnitude - lastMagnitude\<close>.\<close>

definition isPeak :: "StepDetector \<Rightarrow> real \<Rightarrow> bool" where
  "isPeak d magnitude =
     (magnitude > dynamicThreshold d \<and> lastDelta d > 0 \<and>
      magnitude - lastMagnitude d < 0 \<and> \<bar>lastDelta d\<bar> > 0.25)"

text \<open>
  \<^verbatim>\<open>Math.min(...this.magnitudeHistory)\<close>. It is only evaluated after the warm-up
  check, on a window of at least five entries.
\<close>

definition recentMin :: "real list \<Rightarrow> real" where
  "recentMin h = fold min (tl h) (hd h)"

text \<open>The optional false-positive filter on the prominence of the peak.\<close>

definition isValidStep :: "StepDetector \<Rightarrow> real \<Rightarrow> bool" where
  "isValidStep d magnitude =
     (if falsePositiveFilter d then
        \<not> (magnitude - recentMin (magnitudeHistory d) < magnitudeStdDev d * 1.5)
      else True)"

text \<open>
  \<^verbatim>\<open>StepDetector.update(acceleration, deltaTime)\<close>; \<open>currentTime\<close> is the value
  \<^verbatim>\<open>Date.now()\<close> returns during the call. The result is the returned flag and the
  detector after the call.
\<close>

definition StepDetector_update ::
  "StepDetector \<Rightarrow> acceleration \<Rightarrow> int \<Rightarrow> int \<Rightarrow> bool \<times> StepDetector" where
  "StepDetector_update d acceleration deltaTime currentTime =
     (if \<not> enabled d then (False, d)
      else
        let (magnitude, d1) = apply_filter d (rawMagnitude_of acceleration);
            d2 = push_history d1 magnitude
        in if length (magnitudeHistory d2) < 5
           then (False, d2\<lparr> lastMagnitude := magnitude \<rparr>)
           else
             let d3 = update_threshold d2;
                 delta = magnitude - lastMagnitude d3;
                 timeSinceLastPeak = currentTime - lastPeakTime d3
             in if isPeak d3 magnitude \<and> timeSinceLastPeak > minPeakInterval d3
                   \<and> isValidStep d3 magnitude
                then (True, d3\<lparr> stepCount := stepCount d3 + 1,
                                lastPeakTime := currentTime,
                                lastMagnitude := magnitude,
                                lastDelta := delta \<rparr>)
                else (False, d3\<lparr> lastMagnitude := magnitude, lastDelta := delta \<rparr>))"

subsection \<open>Adaptive step detector: reset and configuration\<close>

definition StepDetector_reset :: "StepDetector \<Rightarrow> StepDetector" where
  "StepDetector_reset d =
     d\<lparr> stepCount := 0, magnitudeHistory := [], rawMagnitudeHistory := [],
        lastPeakTime := 0, totalSamples := 0, avgMagnitude := 9.8,
        filteredMagnitude := 9.8, dynamicThreshold := baseThreshold d \<rparr>"

definition setEnabled :: "bool \<Rightarrow> StepDetector \<Rightarrow> StepDetector" where
  "setEnabled en d = d\<lparr> enabled := en \<rparr>"

text \<open>\<^verbatim>\<open>setFilter(enabled, alpha)\<close>: \<^verbatim>\<open>Math.max(0.1, Math.min(1.0, alpha))\<close>.\<close>

definition setFilter :: "bool \<Rightarrow> real \<Rightarrow> StepDetector \<Rightarrow> StepDetector" where
  "setFilter en alpha d =
     d\<lparr> useFilter := en, filterAlpha := max 0.1 (min 1.0 alpha) \<rparr>"

text \<open>
  \<^verbatim>\<open>setSensitivity(level)\<close> reads \<^verbatim>\<open>multipliers[level]\<close> from an object literal
  and falls back with \<^verbatim>\<open>|| 1.5\<close>. A property read on an object literal finds the
  literal's own properties first and then the properties every object inherits from
  \<^verbatim>\<open>Object.prototype\<close>, whose values are functions or objects, not numbers. The
  values that can come out of the read are therefore modelled as a small datatype,
  with \<^verbatim>\<open>||\<close> testing truthiness and the division converting its operand to a
  number: a function or an object converts to NaN, which no real number represents,
  so the quotient is \<open>None\<close> there.
\<close>

datatype js_value = JSUndefined | JSNumber real | JSObject

definition Object_prototype_keys :: "string list" where
  "Object_prototype_keys =
     [''constructor'', ''hasOwnProperty'', ''isPrototypeOf'', ''propertyIsEnumerable'',
      ''toLocaleString'', ''toString'', ''valueOf'', ''__proto__'',
      ''__defineGetter__'', ''__defineSetter__'', ''__lookupGetter__'',
      ''__lookupSetter__'']"

definition multipliers :: "string \<Rightarrow> js_value" where
  "multipliers level =
     (if level = ''low'' then JSNumber 1.0
      else if level = ''medium'' then JSNumber 1.5
      else if level = ''high'' then JSNumber 2.0
      else if level \<in> set Object_prototype_keys then JSObject
      else JSUndefined)"

fun truthy :: "js_value \<Rightarrow> bool" where
  "truthy JSUndefined = False"
| "truthy (JSNumber r) = (r \<noteq> 0)"
| "truthy JSObject = True"

definition js_or :: "js_value \<Rightarrow> js_value \<Rightarrow> js_value" where
  "js_or a b = (if truthy a then a else b)"

fun js_divide :: "real \<Rightarrow> js_value \<Rightarrow> real option" where
  "js_divide r (JSNumber m) = (if m = 0 then None else Some (r / m))"
| "js_divide r JSObject = None"
| "js_divide r JSUndefined = None"

definition setSensitivity :: "string \<Rightarrow> StepDetector \<Rightarrow> StepDetector option" where
  "setSensitivity level d =
     (let multiplier = js_or (multipliers level) (JSNumber 1.5)
      in case js_divide 11 multiplier of
           None \<Rightarrow> None
         | Some t \<Rightarrow> Some (d\<lparr> baseThreshold := t \<rparr>))"

subsection \<open>Runs of the adaptive detector\<close>

text \<open>
  One \<^verbatim>\<open>devicemotion\<close> event as the detector sees it: the acceleration, the time
  since the previous event and the clock reading taken inside \<^verbatim>\<open>update\<close>.
\<close>

record motion_sample =
  accel :: acceleration
  deltaTime :: int
  clock :: int

definition detector_step :: "StepDetector \<Rightarrow> motion_sample \<Rightarrow> bool \<times> StepDetector" where
  "detector_step d s = StepDetector_update d (accel s) (deltaTime s) (clock s)"

text \<open>The detector after a sequence of samples, and the flags it returned.\<close>

fun detector_final :: "StepDetector \<Rightarrow> motion_sample list \<Rightarrow> StepDetector" where
  "detector_final d [] = d"
| "detector_final d (s # ss) = detector_final (snd (detector_step d s)) ss"

fun detector_flags :: "StepDetector \<Rightarrow> motion_sample list \<Rightarrow> bool list" where
  "detector_flags d [] = []"
| "detector_flags d (s # ss) =
     fst (detector_step d s) # detector_flags (snd (detector_step d s)) ss"

text \<open>
  A sample is a candidate peak when \<^verbatim>\<open>update\<close> reaches the peak test with it and
  \<^verbatim>\<open>isPeak\<close> is true: the threshold and local-maximum conditions hold, whatever
  the debounce decides afterwards.
\<close>

definition candidate :: "StepDetector \<Rightarrow> motion_sample \<Rightarrow> bool" where
  "candidate d s =
     (enabled d \<and>
      (let (magnitude, d1) = apply_filter d (rawMagnitude_of (accel s));
           d2 = push_history d1 magnitude
       in \<not> length (magnitudeHistory d2) < 5 \<and> isPeak (update_threshold d2) magnitude))"

fun candidates :: "StepDetector \<Rightarrow> motion_sample list \<Rightarrow> bool list" where
  "candidates d [] = []"
| "candidates d (s # ss) = candidate d s # candidates (snd (detector_step d s)) ss"

subsection \<open>Position tracker\<close>

record position =
  pos_x :: real
  pos_y :: real
  pos_z :: real

record IndoorPositionTracker =
  position :: position
  stepLength :: real
  stepDetector :: StepDetector
  yaw :: real

definition new_IndoorPositionTracker :: "real \<Rightarrow> IndoorPositionTracker" where
  "new_IndoorPositionTracker len =
     \<lparr> position = \<lparr> pos_x = 0, pos_y = 1.6, pos_z = 0 \<rparr>, stepLength = len,
       stepDetector = new_StepDetector, yaw = 0 \<rparr>"

definition IndoorPositionTracker_update ::
  "IndoorPositionTracker \<Rightarrow> acceleration \<Rightarrow> int \<Rightarrow> int \<Rightarrow> bool \<times> IndoorPositionTracker" where
  "IndoorPositionTracker_update t accelerationData dt currentTime =
     (let (stepDetected, sd) = StepDetector_update (stepDetector t) accelerationData dt currentTime;
          t1 = t\<lparr> stepDetector := sd \<rparr>
      in if stepDetected then
           let forwardX = sin (yaw t1);
               forwardZ = - cos (yaw t1)
           in (True, t1\<lparr> position := (position t1)
                  \<lparr> pos_x := pos_x (position t1) + forwardX * stepLength t1,
                    pos_z := pos_z (position t1) + forwardZ * stepLength t1 \<rparr> \<rparr>)
         else (False, t1))"

definition IndoorPositionTracker_reset :: "IndoorPositionTracker \<Rightarrow> IndoorPositionTracker" where
  "IndoorPositionTracker_reset t =
     t\<lparr> position := \<lparr> pos_x = 0, pos_y = 1.6, pos_z = 0 \<rparr>,
        stepDetector := StepDetector_reset (stepDetector t) \<rparr>"

definition getStepCount :: "IndoorPositionTracker \<Rightarrow> nat" where
  "getStepCount t = stepCount (stepDetector t)"

definition tracker_step :: "IndoorPositionTracker \<Rightarrow> motion_sample \<Rightarrow> bool \<times> IndoorPositionTracker" where
  "tracker_step t s = IndoorPositionTracker_update t (accel s) (deltaTime s) (clock s)"

fun tracker_final :: "IndoorPositionTracker \<Rightarrow> motion_sample list \<Rightarrow> IndoorPositionTracker" where
  "tracker_final t [] = t"
| "tracker_final t (s # ss) = tracker_final (snd (tracker_step t s)) ss"

text \<open>
  What the presentation layer observes after each sample: the returned flag, the step
  count and the position.
\<close>

fun tracker_outputs ::
  "IndoorPositionTracker \<Rightarrow> motion_sample list \<Rightarrow> (bool \<times> nat \<times> position) list" where
  "tracker_outputs t [] = []"
| "tracker_outputs t (s # ss) =
     (fst (tracker_step t s), getStepCount (snd (tracker_step t s)),
      position (snd (tracker_step t s)))
       # tracker_outputs (snd (tracker_step t s)) ss"

subsection \<open>Heading calibration\<close>

text \<open>
  A \<^verbatim>\<open>deviceorientation\<close> event; an angle the platform does not report is
  \<^verbatim>\<open>null\<close>, here \<open>None\<close>. Angles are in degrees.
\<close>

record orientation_event =
  ev_alpha :: "real option"
  ev_beta :: "real option"
  ev_gamma :: "real option"

text \<open>
  The fields of \<^verbatim>\<open>DeviceOrientationController\<close> that the heading depends on (the
  camera, Euler and quaternion objects belong to the rendering library).
\<close>

record DeviceOrientationController =
  ctl_alpha :: real
  ctl_beta :: real
  ctl_gamma :: real
  initialYaw :: "real option"

definition new_DeviceOrientationController :: DeviceOrientationController where
  "new_DeviceOrientationController =
     \<lparr> ctl_alpha = 0, ctl_beta = 0, ctl_gamma = 0, initialYaw = None \<rparr>"

text \<open>\<^verbatim>\<open>THREE.MathUtils.degToRad\<close> of the rendering library: degrees times \<open>\<pi> / 180\<close>.\<close>

definition degToRad :: "real \<Rightarrow> real" where
  "degToRad degrees = degrees * (pi / 180)"

text \<open>\<^verbatim>\<open>event.alpha || 0\<close>: \<^verbatim>\<open>null\<close> becomes 0.\<close>

definition or_zero :: "real option \<Rightarrow> real" where
  "or_zero v = (case v of None \<Rightarrow> 0 | Some r \<Rightarrow> r)"

text \<open>The listener \<^verbatim>\<open>handleOrientation\<close> that \<^verbatim>\<open>connect()\<close> registers.\<close>

definition handleOrientation ::
  "DeviceOrientationController \<Rightarrow> orientation_event \<Rightarrow> DeviceOrientationController" where
  "handleOrientation c event =
     (let c1 = (case (initialYaw c, ev_alpha event) of
                  (None, Some a) \<Rightarrow> c\<lparr> initialYaw := Some (degToRad a) \<rparr>
                | _ \<Rightarrow> c)
      in c1\<lparr> ctl_alpha := degToRad (or_zero (ev_alpha event)),
              ctl_beta := degToRad (or_zero (ev_beta event)),
              ctl_gamma := 0 \<rparr>)"

text \<open>\<^verbatim>\<open>IndoorPositionTracker.updateOrientation(orientationData, initialYaw)\<close>.\<close>

definition updateOrientation ::
  "IndoorPositionTracker \<Rightarrow> orientation_event \<Rightarrow> real option \<Rightarrow> IndoorPositionTracker" where
  "updateOrientation t orientationData initYaw =
     (case (ev_alpha orientationData, initYaw) of
        (Some a, Some y0) \<Rightarrow> t\<lparr> yaw := y0 - (a * pi / 180) \<rparr>
      | _ \<Rightarrow> t)"

text \<open>
  One \<^verbatim>\<open>deviceorientation\<close> event reaches two listeners in the order of their
  registration: the tracker's listener, registered when the module is loaded, is
  called with the controller's \<^verbatim>\<open>initialYaw\<close> as it is at that moment; then
  \<^verbatim>\<open>handleOrientation\<close>, registered later by \<^verbatim>\<open>connect()\<close>, runs.
\<close>

definition on_deviceorientation ::
  "IndoorPositionTracker \<times> DeviceOrientationController \<Rightarrow> orientation_event
     \<Rightarrow> IndoorPositionTracker \<times> DeviceOrientationController" where
  "on_deviceorientation st event =
     (updateOrientation (fst st) event (initialYaw (snd st)),
      handleOrientation (snd st) event)"

definition orientation_run ::
  "IndoorPositionTracker \<times> DeviceOrientationController \<Rightarrow> orientation_event list
     \<Rightarrow> IndoorPositionTracker \<times> DeviceOrientationController" where
  "orientation_run st events = foldl on_deviceorientation st events"

subsection \<open>Simple fixed-threshold step detector\<close>

text \<open>
  The older variants of the file carry a second \<^verbatim>\<open>StepDetector\<close> class with a fixed
  threshold and a cooldown. Its fields are suffixed with \<open>_s\<close> here to keep them
  apart from the fields of the adaptive detector.
\<close>

record SimpleStepDetector =
  lastMagnitude_s :: real
  threshold_s :: real
  cooldown_s :: int
  cooldownTime_s :: int
  stepCount_s :: nat
  enabled_s :: bool

definition new_SimpleStepDetector :: SimpleStepDetector where
  "new_SimpleStepDetector =
     \<lparr> lastMagnitude_s = 0, threshold_s = 11.25, cooldown_s = 0,
       cooldownTime_s = 300, stepCount_s = 0, enabled_s = True \<rparr>"

definition SimpleStepDetector_update ::
  "SimpleStepDetector \<Rightarrow> acceleration \<Rightarrow> int \<Rightarrow> bool \<times> SimpleStepDetector" where
  "SimpleStepDetector_update d acceleration dt =
     (let d1 = d\<lparr> cooldown_s := max 0 (cooldown_s d - dt) \<rparr>;
          magnitude = rawMagnitude_of acceleration
      in if enabled_s d1 \<and> magnitude > threshold_s d1 \<and>
            lastMagnitude_s d1 < threshold_s d1 \<and> cooldown_s d1 = 0
         then (True, d1\<lparr> stepCount_s := stepCount_s d1 + 1,
                         cooldown_s := cooldownTime_s d1,
                         lastMagnitude_s := magnitude \<rparr>)
         else (False, d1\<lparr> lastMagnitude_s := magnitude \<rparr>))"

text \<open>The flags the simple detector returns on a sequence of (acceleration, deltaTime).\<close>

fun simple_flags :: "SimpleStepDetector \<Rightarrow> (acceleration \<times> int) list \<Rightarrow> bool list" where
  "simple_flags d [] = []"
| "simple_flags d (s # ss) =
     fst (SimpleStepDetector_update d (fst s) (snd s))
       # simple_flags (snd (SimpleStepDetector_update d (fst s) (snd s))) ss"

subsection \<open>Auxiliary predicates and sample inputs\<close>

text \<open>
  A detector state from which samples below the base threshold cannot produce a
  peak: the dynamic threshold is not below the base threshold and, with the filter
  on, the coefficient is a weight between 0 and 1, the filter state is below the
  base threshold whenever the stored slope is positive, and once the window holds a
  sample the stored magnitude is the filter state.
\<close>

definition settled :: "StepDetector \<Rightarrow> bool" where
  "settled d \<longleftrightarrow>
     baseThreshold d \<le> dynamicThreshold d \<and>
     (useFilter d \<longrightarrow> 0 \<le> filterAlpha d \<and> filterAlpha d \<le> 1 \<and>
        (0 < lastDelta d \<longrightarrow> filteredMagnitude d < baseThreshold d) \<and>
        (magnitudeHistory d \<noteq> [] \<longrightarrow> lastMagnitude d = filteredMagnitude d))"

text \<open>
  A sample whose acceleration points along the z axis with magnitude \<open>r\<close>, taken
  100 ms after the previous one when the clock reads \<open>t\<close>.
\<close>

definition vertical :: "real \<Rightarrow> int \<Rightarrow> motion_sample" where
  "vertical r t =
     \<lparr> accel = \<lparr> acc_x = 0, acc_y = 0, acc_z = r \<rparr>, deltaTime = 100, clock = t \<rparr>"

text \<open>Five samples at rest and one rising sample: the next falling sample is a peak.\<close>

definition walking :: "motion_sample list" where
  "walking = [vertical 9.8 1000, vertical 9.8 1100, vertical 9.8 1200, vertical 9.8 1300,
      vertical 9.8 1400, vertical 13.8 1500]"

text \<open>Four strong samples, a weak one and a strong one, starting at clock reading \<open>t0\<close>.\<close>

definition stride :: "int \<Rightarrow> motion_sample list" where
  "stride t0 = [vertical 13.8 t0, vertical 13.8 (t0 + 100), vertical 13.8 (t0 + 200),
      vertical 13.8 (t0 + 300), vertical 9.8 (t0 + 400), vertical 13.8 (t0 + 500)]"

text \<open>A tracker with step length 0.65 m that has seen the samples of \<open>walking\<close>.\<close>

definition walker :: IndoorPositionTracker where
  "walker = tracker_final (new_IndoorPositionTracker 0.65) walking"

text \<open>
  A freshly constructed tracker, and a tracker that was constructed the same way, fed
  one \<open>stride\<close> and then reset. Clock readings are milliseconds since 1970.
\<close>

definition fresh_tracker :: IndoorPositionTracker where
  "fresh_tracker = new_IndoorPositionTracker 0.65"

definition reset_tracker :: IndoorPositionTracker where
  "reset_tracker =
     IndoorPositionTracker_reset (tracker_final fresh_tracker (stride 1762128000000))"

text \<open>
  The fresh detector with the base threshold that \<^verbatim>\<open>setSensitivity('low')\<close>
  assigns, and a run of samples whose magnitudes all stay below that base threshold.
\<close>

definition low_detector :: StepDetector where
  "low_detector = new_StepDetector\<lparr> baseThreshold := 11 \<rparr>"

definition gentle :: "motion_sample list" where
  "gentle = [vertical 9.8 1762128000000, vertical 9.8 1762128000100,
      vertical 9.8 1762128000200, vertical 9.8 1762128000300, vertical 9.8 1762128000400,
      vertical 10.99 1762128000500, vertical 10.99 1762128000600,
      vertical 10.6 1762128000700]"

text \<open>
  A detector configured with filter coefficient 0.1 and medium sensitivity, the same
  detector after one \<open>stride\<close> and a reset, and five samples of magnitude 7.
\<close>

definition medium_detector :: StepDetector where
  "medium_detector = (setFilter True 0.1 new_StepDetector)\<lparr> baseThreshold := 11 / 1.5 \<rparr>"

definition medium_reset_detector :: StepDetector where
  "medium_reset_detector =
     StepDetector_reset (detector_final medium_detector (stride 1762128000000))"

definition calm :: "motion_sample list" where
  "calm = [vertical 7 1762128060000, vertical 7 1762128060100, vertical 7 1762128060200,
      vertical 7 1762128060300, vertical 7 1762128060400]"

definition heading_event :: "real option \<Rightarrow> orientation_event" where
  "heading_event a = \<lparr> ev_alpha = a, ev_beta = Some 0, ev_gamma = Some 0 \<rparr>"

section \<open>Properties\<close>

subsection \<open>Evaluating the detector on concrete samples\<close>

lemma rawMagnitude_vertical:
  "0 \<le> r \<Longrightarrow> rawMagnitude_of \<lparr> acc_x = 0, acc_y = 0, acc_z = r \<rparr> = r"
  by (simp add: rawMagnitude_of_def)

lemmas run_detector =
  detector_step_def StepDetector_update_def apply_filter_def push_history_def
  update_threshold_def isPeak_def isValidStep_def Let_def shift_def new_StepDetector_def
  rawMagnitude_vertical vertical_def

lemmas run_tracker =
  tracker_step_def IndoorPositionTracker_update_def new_IndoorPositionTracker_def
  getStepCount_def split_beta run_detector

subsection \<open>Filter configuration\<close>

text \<open>
  C8. For every value of \<open>alpha\<close> passed to \<^verbatim>\<open>setFilter\<close> the stored coefficient is
  clamped into the range from 0.1 to 1.0 and never rejected: a value below 0.1
  becomes 0.1, a value above 1.0 becomes 1.0, and a value in the range is stored
  unchanged.
\<close>

theorem setFilter_clamps:
  "0.1 \<le> filterAlpha (setFilter en alpha d) \<and> filterAlpha (setFilter en alpha d) \<le> 1.0
   \<and> (alpha < 0.1 \<longrightarrow> filterAlpha (setFilter en alpha d) = 0.1)
   \<and> (1.0 < alpha \<longrightarrow> filterAlpha (setFilter en alpha d) = 1.0)
   \<and> (0.1 \<le> alpha \<and> alpha \<le> 1.0 \<longrightarrow> filterAlpha (setFilter en alpha d) = alpha)
   \<and> useFilter (setFilter en alpha d) = en"
  by (auto simp: setFilter_def)

theorem setFilter_clamps_witness:
  "filterAlpha (setFilter True 0.05 new_StepDetector) = 0.1
   \<and> filterAlpha (setFilter True 7 new_StepDetector) = 1.0
   \<and> filterAlpha (setFilter False 0.2 new_StepDetector) = 0.2"
  using setFilter_clamps [of True "0.05" new_StepDetector]
        setFilter_clamps [of True 7 new_StepDetector]
        setFilter_clamps [of False "0.2" new_StepDetector]
  by simp

subsection \<open>Warm-up of the adaptive detector\<close>

lemma length_after_push:
  "length (magnitudeHistory (push_history d m)) \<le> Suc (length (magnitudeHistory d))"
  by (simp add: push_history_def Let_def shift_def)

lemma apply_filter_history:
  "magnitudeHistory (snd (apply_filter d r)) = magnitudeHistory d"
  by (simp add: apply_filter_def Let_def)

lemma step_history_length:
  "length (magnitudeHistory (snd (detector_step d s))) \<le> Suc (length (magnitudeHistory d))"
  using length_after_push [of "snd (apply_filter d (rawMagnitude_of (accel s)))"
          "fst (apply_filter d (rawMagnitude_of (accel s)))"]
  by (simp add: detector_step_def StepDetector_update_def update_threshold_def Let_def
        split_beta apply_filter_history)

lemma step_warmup:
  "length (magnitudeHistory d) < 4 \<Longrightarrow> \<not> fst (detector_step d s)"
  using length_after_push [of "snd (apply_filter d (rawMagnitude_of (accel s)))"
          "fst (apply_filter d (rawMagnitude_of (accel s)))"]
  by (simp add: detector_step_def StepDetector_update_def Let_def split_beta
        apply_filter_history)

lemma step_warmup_window:
  "length (magnitudeHistory (snd (StepDetector_update d a dt now))) < 5 \<Longrightarrow>
   \<not> fst (StepDetector_update d a dt now)"
  by (auto simp add: StepDetector_update_def update_threshold_def Let_def split_beta
        split: if_splits)

lemma flags_warmup:
  "length (magnitudeHistory d) + length ss < 5 \<Longrightarrow>
   detector_flags d ss = replicate (length ss) False"
proof (induction ss arbitrary: d)
  case Nil
  then show ?case by simp
next
  case (Cons s ss)
  have "length (magnitudeHistory (snd (detector_step d s))) + length ss < 5"
    using Cons.prems step_history_length [of d s] by simp
  then have "detector_flags (snd (detector_step d s)) ss = replicate (length ss) False"
    by (rule Cons.IH)
  moreover have "\<not> fst (detector_step d s)"
    using Cons.prems by (intro step_warmup) simp
  ultimately show ?case by simp
qed

text \<open>
  C7. While the sliding window holds fewer than five samples, \<^verbatim>\<open>update\<close> returns
  the "no step" result. The window is counted as the code tests it, with the sample
  of the current call already pushed: a call that leaves fewer than five entries in
  the window returns false, and so does every call of a run as long as the entries
  present at the start plus the samples fed stay below five. The model of
  \<^verbatim>\<open>update\<close> is a total function: the division by the window length and the
  minimum of the window are only reached after the warm-up test.
\<close>

theorem warm_up_reports_no_step:
  "(length (magnitudeHistory (snd (StepDetector_update d a dt now))) < 5
      \<longrightarrow> \<not> fst (StepDetector_update d a dt now))
   \<and> (length (magnitudeHistory d) + length ss < 5
      \<longrightarrow> detector_flags d ss = replicate (length ss) False)"
  using step_warmup_window [of d a dt now] flags_warmup [of d ss] by blast

theorem warm_up_reports_no_step_witness:
  "length (magnitudeHistory (snd (StepDetector_update new_StepDetector
       (accel (vertical 20 1000)) 100 1000))) < 5
   \<and> \<not> fst (StepDetector_update new_StepDetector (accel (vertical 20 1000)) 100 1000)
   \<and> length (magnitudeHistory new_StepDetector)
        + length [vertical 20 1000, vertical 5 1100, vertical 20 1200, vertical 5 1300] < 5
   \<and> detector_flags new_StepDetector
        [vertical 20 1000, vertical 5 1100, vertical 20 1200, vertical 5 1300]
      = [False, False, False, False]"
  using warm_up_reports_no_step [of new_StepDetector "accel (vertical 20 1000)" 100 1000
          "[vertical 20 1000, vertical 5 1100, vertical 20 1200, vertical 5 1300]"]
  by (simp add: run_detector numeral_eq_Suc)

subsection \<open>The simple detector fires on rising edges only\<close>

lemma simple_step_above:
  "fst (SimpleStepDetector_update d a dt) \<Longrightarrow>
   threshold_s d < lastMagnitude_s (snd (SimpleStepDetector_update d a dt))"
  by (auto simp: SimpleStepDetector_update_def Let_def split: if_splits)

lemma simple_threshold_const:
  "threshold_s (snd (SimpleStepDetector_update d a dt)) = threshold_s d"
  by (auto simp: SimpleStepDetector_update_def Let_def split: if_splits)

lemma simple_above_no_step:
  "threshold_s d \<le> lastMagnitude_s d \<Longrightarrow> \<not> fst (SimpleStepDetector_update d a dt)"
  by (auto simp: SimpleStepDetector_update_def Let_def split: if_splits)

lemma simple_no_two:
  "fst (SimpleStepDetector_update d a dt) \<Longrightarrow>
   \<not> fst (SimpleStepDetector_update (snd (SimpleStepDetector_update d a dt)) a' dt')"
  using simple_step_above [of d a dt]
  by (intro simple_above_no_step) (simp add: simple_threshold_const)

lemma simple_flags_consecutive:
  "Suc i < length ss \<Longrightarrow> \<not> (simple_flags d ss ! i \<and> simple_flags d ss ! Suc i)"
proof (induction ss arbitrary: d i)
  case Nil
  then show ?case by simp
next
  case (Cons s ss)
  show ?case
  proof (cases i)
    case 0
    then obtain s' ss' where ss: "ss = s' # ss'"
      using Cons.prems by (cases ss) auto
    show ?thesis
      using simple_no_two [of d "fst s" "snd s" "fst s'" "snd s'"]
      by (simp add: 0 ss Let_def)
  next
    case (Suc j)
    then have "Suc j < length ss" using Cons.prems by simp
    from Cons.IH [OF this, of "snd (SimpleStepDetector_update d (fst s) (snd s))"]
    show ?thesis by (simp add: Suc Let_def)
  qed
qed

lemma simple_stays_quiet:
  "threshold_s d \<le> lastMagnitude_s d \<Longrightarrow>
   \<forall>s\<in>set ss. threshold_s d \<le> rawMagnitude_of (fst s) \<Longrightarrow>
   simple_flags d ss = replicate (length ss) False"
proof (induction ss arbitrary: d)
  case Nil
  then show ?case by simp
next
  case (Cons s ss)
  let ?r = "SimpleStepDetector_update d (fst s) (snd s)"
  have f: "\<not> fst ?r" using Cons.prems(1) by (rule simple_above_no_step)
  then have lm: "lastMagnitude_s (snd ?r) = rawMagnitude_of (fst s)"
    by (auto simp: SimpleStepDetector_update_def Let_def split: if_splits)
  have "simple_flags (snd ?r) ss = replicate (length ss) False"
    using Cons.prems lm by (intro Cons.IH) (simp_all add: simple_threshold_const)
  then show ?case using f by (simp add: Let_def)
qed

text \<open>
  C9. The simple fixed-threshold detector never reports a step on two consecutive
  samples. A reported step stores a \<^verbatim>\<open>lastMagnitude\<close> above the threshold, so the
  rising-edge test \<^verbatim>\<open>lastMagnitude < threshold\<close> fails on the next sample, and it
  keeps failing as long as the following magnitudes do not fall below the threshold.
\<close>

theorem simple_detector_no_consecutive_steps:
  "(Suc i < length ss \<longrightarrow> \<not> (simple_flags d ss ! i \<and> simple_flags d ss ! Suc i))
   \<and> (fst (SimpleStepDetector_update d a dt) \<longrightarrow>
        threshold_s d < lastMagnitude_s (snd (SimpleStepDetector_update d a dt))
        \<and> ((\<forall>s\<in>set ss. threshold_s d \<le> rawMagnitude_of (fst s)) \<longrightarrow>
             simple_flags (snd (SimpleStepDetector_update d a dt)) ss
               = replicate (length ss) False))"
proof -
  have "simple_flags (snd (SimpleStepDetector_update d a dt)) ss = replicate (length ss) False"
    if "fst (SimpleStepDetector_update d a dt)"
      and "\<forall>s\<in>set ss. threshold_s d \<le> rawMagnitude_of (fst s)"
    using simple_step_above [OF that(1)] that(2)
    by (intro simple_stays_quiet) (simp_all add: simple_threshold_const)
  then show ?thesis
    using simple_flags_consecutive [of i ss d] simple_step_above [of d a dt] by blast
qed

theorem simple_detector_no_consecutive_steps_witness:
  "Suc 0 < length [(accel (vertical 12 0), 100 :: int), (accel (vertical 12.5 0), 400)]
   \<and> simple_flags new_SimpleStepDetector
        [(accel (vertical 12 0), 100), (accel (vertical 12.5 0), 400)] = [True, False]
   \<and> fst (SimpleStepDetector_update new_SimpleStepDetector (accel (vertical 12 0)) 100)
   \<and> simple_flags (snd (SimpleStepDetector_update new_SimpleStepDetector
          (accel (vertical 12 0)) 100))
        [(accel (vertical 12.5 0), 400), (accel (vertical 11.25 0), 400)] = [False, False]"
  using simple_detector_no_consecutive_steps [of 0
          "[(accel (vertical 12 0), 100), (accel (vertical 12.5 0), 400)]"
          new_SimpleStepDetector "accel (vertical 12 0)" 100]
        simple_detector_no_consecutive_steps [of 0
          "[(accel (vertical 12.5 0), 400), (accel (vertical 11.25 0), 400)]"
          new_SimpleStepDetector "accel (vertical 12 0)" 100]
  by (simp add: SimpleStepDetector_update_def new_SimpleStepDetector_def Let_def
        vertical_def rawMagnitude_vertical)

subsection \<open>Dead-reckoning integration\<close>

text \<open>
  C1. Each step the detector accepts adds
  \<open>(sin heading \<sqdot> stepLength, - cos heading \<sqdot> stepLength)\<close> to \<open>(x, z)\<close>. With
  \<open>stepLength = 0.65\<close> and the position at the origin, a step with heading 0 moves
  the position to \<open>(0, -0.65)\<close> and a step with heading \<open>\<pi>/2\<close> moves it to
  \<open>(0.65, 0)\<close>.
\<close>

theorem step_displacement:
  assumes "fst (StepDetector_update (stepDetector t) a dt now)"
  shows "fst (IndoorPositionTracker_update t a dt now)
    \<and> pos_x (position (snd (IndoorPositionTracker_update t a dt now)))
        = pos_x (position t) + sin (yaw t) * stepLength t
    \<and> pos_z (position (snd (IndoorPositionTracker_update t a dt now)))
        = pos_z (position t) + (- cos (yaw t)) * stepLength t
    \<and> (stepLength t = 0.65 \<and> pos_x (position t) = 0 \<and> pos_z (position t) = 0 \<and> yaw t = 0
        \<longrightarrow> pos_x (position (snd (IndoorPositionTracker_update t a dt now))) = 0
          \<and> pos_z (position (snd (IndoorPositionTracker_update t a dt now))) = - 0.65)
    \<and> (stepLength t = 0.65 \<and> pos_x (position t) = 0 \<and> pos_z (position t) = 0
          \<and> yaw t = pi / 2
        \<longrightarrow> pos_x (position (snd (IndoorPositionTracker_update t a dt now))) = 0.65
          \<and> pos_z (position (snd (IndoorPositionTracker_update t a dt now))) = 0)"
proof -
  let ?t' = "snd (IndoorPositionTracker_update t a dt now)"
  have moved: "fst (IndoorPositionTracker_update t a dt now)"
    and px: "pos_x (position ?t') = pos_x (position t) + sin (yaw t) * stepLength t"
    and pz: "pos_z (position ?t') = pos_z (position t) + (- cos (yaw t)) * stepLength t"
    using assms by (simp_all add: IndoorPositionTracker_update_def Let_def split_beta)
  have ahead: "pos_x (position ?t') = 0 \<and> pos_z (position ?t') = - 0.65"
    if "stepLength t = 0.65 \<and> pos_x (position t) = 0 \<and> pos_z (position t) = 0 \<and> yaw t = 0"
    by (simp add: px pz that)
  have right: "pos_x (position ?t') = 0.65 \<and> pos_z (position ?t') = 0"
    if "stepLength t = 0.65 \<and> pos_x (position t) = 0 \<and> pos_z (position t) = 0
          \<and> yaw t = pi / 2"
    by (simp add: px pz that)
  show ?thesis using moved px pz ahead right by blast
qed

lemma walker_state:
  "walker =
     \<lparr> position = \<lparr> pos_x = 0, pos_y = 8 / 5, pos_z = 0 \<rparr>, stepLength = 13 / 20,
       stepDetector =
         \<lparr> magnitudeHistory = [49 / 5, 49 / 5, 49 / 5, 49 / 5, 49 / 5, 59 / 5],
           historySize = 10, useFilter = True, filterAlpha = 1 / 2,
           filteredMagnitude = 59 / 5,
           rawMagnitudeHistory = [49 / 5, 49 / 5, 49 / 5, 49 / 5, 69 / 5],
           baseThreshold = 21 / 2, dynamicThreshold = 21 / 2,
           avgMagnitude = 49 / 5, magnitudeStdDev = 1, lastPeakTime = 0,
           minPeakInterval = 500, lastMagnitude = 59 / 5, lastDelta = 2,
           stepCount = 0, enabled = True, totalSamples = 6,
           falsePositiveFilter = False \<rparr>,
       yaw = 0 \<rparr>"
  by (simp add: walker_def walking_def run_tracker)

theorem step_displacement_witness:
  "pos_x (position (snd (IndoorPositionTracker_update walker
       (accel (vertical 9.8 1600)) 100 1600))) = 0
   \<and> pos_z (position (snd (IndoorPositionTracker_update walker
       (accel (vertical 9.8 1600)) 100 1600))) = - 0.65
   \<and> pos_x (position (snd (IndoorPositionTracker_update (walker\<lparr> yaw := pi / 2 \<rparr>)
       (accel (vertical 9.8 1600)) 100 1600))) = 0.65
   \<and> pos_z (position (snd (IndoorPositionTracker_update (walker\<lparr> yaw := pi / 2 \<rparr>)
       (accel (vertical 9.8 1600)) 100 1600))) = 0"
proof -
  have step: "fst (StepDetector_update (stepDetector walker) (accel (vertical 9.8 1600)) 100 1600)"
    by (simp add: walker_state run_detector)
  have same: "stepDetector (walker\<lparr> yaw := pi / 2 \<rparr>) = stepDetector walker"
    by simp
  have step': "fst (StepDetector_update (stepDetector (walker\<lparr> yaw := pi / 2 \<rparr>))
      (accel (vertical 9.8 1600)) 100 1600)"
    unfolding same by (rule step)
  have origin: "stepLength walker = 0.65 \<and> pos_x (position walker) = 0
      \<and> pos_z (position walker) = 0 \<and> yaw walker = 0"
    by (simp add: walker_state)
  have origin': "stepLength (walker\<lparr> yaw := pi / 2 \<rparr>) = 0.65
      \<and> pos_x (position (walker\<lparr> yaw := pi / 2 \<rparr>)) = 0
      \<and> pos_z (position (walker\<lparr> yaw := pi / 2 \<rparr>)) = 0
      \<and> yaw (walker\<lparr> yaw := pi / 2 \<rparr>) = pi / 2"
    by (simp add: walker_state)
  show ?thesis
    using step_displacement [OF step] step_displacement [OF step'] origin origin'
    by blast
qed

subsection \<open>Heading calibration\<close>

lemma handle_keeps_reference:
  "initialYaw c = Some r \<Longrightarrow> initialYaw (handleOrientation c e) = Some r"
  by (simp add: handleOrientation_def Let_def)

lemma handle_null_alpha:
  "initialYaw c = None \<Longrightarrow> ev_alpha e = None \<Longrightarrow> initialYaw (handleOrientation c e) = None"
  by (simp add: handleOrientation_def Let_def)

lemma handle_captures:
  "initialYaw c = None \<Longrightarrow> ev_alpha e = Some a \<Longrightarrow>
   initialYaw (handleOrientation c e) = Some (degToRad a)"
  by (simp add: handleOrientation_def Let_def)

lemma run_keeps_reference:
  "initialYaw (snd st) = Some r \<Longrightarrow> initialYaw (snd (orientation_run st es)) = Some r"
  unfolding orientation_run_def
  by (induction es arbitrary: st) (simp_all add: on_deviceorientation_def handle_keeps_reference)

lemma run_null_alphas:
  "initialYaw (snd st) = None \<Longrightarrow> \<forall>e\<in>set es. ev_alpha e = None \<Longrightarrow>
   initialYaw (snd (orientation_run st es)) = None"
  unfolding orientation_run_def
  by (induction es arbitrary: st) (simp_all add: on_deviceorientation_def handle_null_alpha)

lemma run_append:
  "orientation_run st (es @ fs) = orientation_run (orientation_run st es) fs"
  by (simp add: orientation_run_def)

lemma run_single: "orientation_run st [e] = on_deviceorientation st e"
  by (simp add: orientation_run_def)

lemma listener_heading:
  "initialYaw (snd st) = Some r \<Longrightarrow> ev_alpha e = Some a \<Longrightarrow>
   yaw (fst (on_deviceorientation st e)) = r - a * pi / 180"
  by (simp add: on_deviceorientation_def updateOrientation_def)

text \<open>
  C5. The reference heading is captured exactly once, from the first orientation
  sample whose alpha is not null (\<open>\<theta>0\<close>, in degrees): samples before it leave
  the reference unset and samples after it never change it. From then on a sample
  with alpha \<open>a\<close> sets the heading to the reference minus \<open>a\<close> in radians: alpha
  \<open>\<theta>0\<close> gives heading 0 and alpha \<open>\<theta>0 + 90\<close> gives heading \<open>- \<pi>/2\<close>.
\<close>

theorem heading_calibration:
  assumes fresh: "initialYaw c = None"
    and nulls: "\<forall>e\<in>set pre. ev_alpha e = None"
    and first: "ev_alpha e0 = Some \<theta>0"
    and later: "ev_alpha e = Some a"
  shows "initialYaw (snd (orientation_run (t, c) (pre @ [e0]))) = Some (degToRad \<theta>0)
     \<and> initialYaw (snd (orientation_run (t, c) (pre @ [e0] @ mid @ [e]))) = Some (degToRad \<theta>0)
     \<and> yaw (fst (orientation_run (t, c) (pre @ [e0] @ mid @ [e]))) = degToRad \<theta>0 - a * pi / 180
     \<and> (a = \<theta>0 \<longrightarrow> yaw (fst (orientation_run (t, c) (pre @ [e0] @ mid @ [e]))) = 0)
     \<and> (a = \<theta>0 + 90 \<longrightarrow> yaw (fst (orientation_run (t, c) (pre @ [e0] @ mid @ [e]))) = - (pi / 2))"
proof -
  let ?s1 = "orientation_run (t, c) pre"
  let ?s2 = "orientation_run (t, c) (pre @ [e0])"
  let ?s3 = "orientation_run (t, c) (pre @ [e0] @ mid)"
  let ?s4 = "orientation_run (t, c) (pre @ [e0] @ mid @ [e])"
  have "initialYaw (snd ?s1) = None"
    using fresh nulls by (intro run_null_alphas) simp_all
  then have ref2: "initialYaw (snd ?s2) = Some (degToRad \<theta>0)"
    using first by (simp add: run_append run_single on_deviceorientation_def handle_captures)
  have "?s3 = orientation_run ?s2 mid"
    by (simp add: orientation_run_def)
  then have ref3: "initialYaw (snd ?s3) = Some (degToRad \<theta>0)"
    using ref2 by (simp add: run_keeps_reference)
  have s4: "?s4 = on_deviceorientation ?s3 e"
    by (simp add: orientation_run_def)
  have ref4: "initialYaw (snd ?s4) = Some (degToRad \<theta>0)"
    unfolding s4 using ref3 by (simp add: on_deviceorientation_def handle_keeps_reference)
  have heading: "yaw (fst ?s4) = degToRad \<theta>0 - a * pi / 180"
    unfolding s4 using ref3 later by (rule listener_heading)
  have same: "yaw (fst ?s4) = 0" if "a = \<theta>0"
    unfolding heading that by (simp add: degToRad_def)
  have quarter: "yaw (fst ?s4) = - (pi / 2)" if "a = \<theta>0 + 90"
    unfolding heading that by (simp add: degToRad_def algebra_simps)
  show ?thesis using ref2 ref4 heading same quarter by blast
qed

theorem heading_calibration_witness:
  "yaw (fst (orientation_run (fresh_tracker, new_DeviceOrientationController)
       ([heading_event None] @ [heading_event (Some 30)] @ [heading_event (Some 200)]
          @ [heading_event (Some 30)]))) = 0
   \<and> yaw (fst (orientation_run (fresh_tracker, new_DeviceOrientationController)
       ([heading_event None] @ [heading_event (Some 30)] @ [heading_event (Some 200)]
          @ [heading_event (Some 120)]))) = - (pi / 2)
   \<and> initialYaw (snd (orientation_run (fresh_tracker, new_DeviceOrientationController)
       ([heading_event None] @ [heading_event (Some 30)] @ [heading_event (Some 200)]
          @ [heading_event (Some 120)]))) = Some (degToRad 30)"
proof -
  have fresh: "initialYaw new_DeviceOrientationController = None"
    by (simp add: new_DeviceOrientationController_def)
  have nulls: "\<forall>e\<in>set [heading_event None]. ev_alpha e = None"
    by (simp add: heading_event_def)
  have first: "ev_alpha (heading_event (Some 30)) = Some 30"
    and same: "ev_alpha (heading_event (Some 30)) = Some 30"
    and quarter: "ev_alpha (heading_event (Some 120)) = Some 120"
    by (simp_all add: heading_event_def)
  have sum: "(120 :: real) = 30 + 90" by simp
  show ?thesis
    using heading_calibration [OF fresh nulls first same, of fresh_tracker
            "[heading_event (Some 200)]"]
          heading_calibration [OF fresh nulls first quarter, of fresh_tracker
            "[heading_event (Some 200)]"] sum
    by blast
qed

subsection \<open>Samples below the base threshold\<close>

lemma convex_below:
  fixes \<alpha> r f b :: real
  assumes "0 \<le> \<alpha>" "\<alpha> \<le> 1" "r < b" "f < b"
  shows "\<alpha> * r + (1 - \<alpha>) * f < b"
proof (cases "\<alpha> = 0")
  case True
  then show ?thesis using assms by simp
next
  case False
  then have "\<alpha> * r < \<alpha> * b" using assms by simp
  moreover have "(1 - \<alpha>) * f \<le> (1 - \<alpha>) * b"
    using assms by (intro mult_left_mono) simp_all
  moreover have "\<alpha> * b + (1 - \<alpha>) * b = b" by (simp add: algebra_simps)
  ultimately show ?thesis by linarith
qed

lemma convex_rise:
  fixes \<alpha> r f b :: real
  assumes "0 \<le> \<alpha>" "\<alpha> \<le> 1" "r < b" "f < \<alpha> * r + (1 - \<alpha>) * f"
  shows "\<alpha> * r + (1 - \<alpha>) * f < b"
proof -
  have "0 < \<alpha> * (r - f)" using assms(4) by (simp add: algebra_simps)
  then have "0 < r - f" using assms(1) by (simp add: zero_less_mult_iff)
  then have "\<alpha> * (r - f) \<le> 1 * (r - f)"
    using assms(2) by (intro mult_right_mono) simp_all
  then have "\<alpha> * r + (1 - \<alpha>) * f \<le> r" by (simp add: algebra_simps)
  then show ?thesis using assms(3) by simp
qed

lemma step_settled:
  assumes inv: "settled d" and low: "rawMagnitude_of (accel s) < baseThreshold d"
  shows "\<not> fst (detector_step d s)"
    and "settled (snd (detector_step d s))"
    and "baseThreshold (snd (detector_step d s)) = baseThreshold d"
    and "stepCount (snd (detector_step d s)) = stepCount d"
proof -
  let ?r = "rawMagnitude_of (accel s)"
  let ?m = "fst (apply_filter d ?r)"
  let ?d1 = "snd (apply_filter d ?r)"
  let ?d2 = "push_history ?d1 ?m"
  let ?d3 = "update_threshold ?d2"
  have base: "baseThreshold ?d3 = baseThreshold d" "baseThreshold ?d2 = baseThreshold d"
    by (simp_all add: update_threshold_def push_history_def apply_filter_def Let_def)
  have floor: "baseThreshold d \<le> dynamicThreshold ?d3" "baseThreshold d \<le> dynamicThreshold ?d2"
    using inv by (simp_all add: settled_def update_threshold_def push_history_def
        apply_filter_def Let_def)
  have keep: "lastDelta ?d3 = lastDelta d" "lastMagnitude ?d3 = lastMagnitude d"
    "useFilter ?d3 = useFilter d" "filterAlpha ?d3 = filterAlpha d"
    "useFilter ?d2 = useFilter d" "filterAlpha ?d2 = filterAlpha d" "lastDelta ?d2 = lastDelta d"
    "stepCount ?d3 = stepCount d" "stepCount ?d2 = stepCount d"
    by (simp_all add: update_threshold_def push_history_def apply_filter_def Let_def)
  have filt: "filteredMagnitude ?d3 = ?m" "filteredMagnitude ?d2 = ?m" if "useFilter d"
    using that by (simp_all add: update_threshold_def push_history_def apply_filter_def Let_def)
  have m_off: "?m = ?r" if "\<not> useFilter d"
    using that by (simp add: apply_filter_def)
  have m_on: "?m = filterAlpha d * ?r + (1 - filterAlpha d) * filteredMagnitude d"
    if "useFilter d"
    using that by (simp add: apply_filter_def Let_def)
  have weight: "0 \<le> filterAlpha d" "filterAlpha d \<le> 1" if "useFilter d"
    using inv that by (simp_all add: settled_def)
  have falling: "?m < baseThreshold d" if "0 < lastDelta d"
  proof (cases "useFilter d")
    case True
    then have "filteredMagnitude d < baseThreshold d"
      using inv that by (simp add: settled_def)
    then show ?thesis
      unfolding m_on [OF True] using weight [OF True] low by (intro convex_below)
  next
    case False
    then show ?thesis using low by (simp add: m_off)
  qed
  have nopeak: "\<not> isPeak ?d3 ?m"
  proof
    assume "isPeak ?d3 ?m"
    then have "dynamicThreshold ?d3 < ?m" "0 < lastDelta d"
      by (simp_all add: isPeak_def keep)
    then show False using falling floor(1) by simp
  qed
  have warm: "magnitudeHistory d \<noteq> []" if "\<not> length (magnitudeHistory ?d2) < 5"
  proof
    assume "magnitudeHistory d = []"
    then have "length (magnitudeHistory ?d2) \<le> 1"
      by (simp add: push_history_def apply_filter_def Let_def shift_def)
    then show False using that by simp
  qed
  have rising: "?m < baseThreshold d"
    if "useFilter d" "\<not> length (magnitudeHistory ?d2) < 5" "0 < ?m - lastMagnitude d"
  proof -
    have "lastMagnitude d = filteredMagnitude d"
      using inv that(1) warm [OF that(2)] by (simp add: settled_def)
    then have "filteredMagnitude d < filterAlpha d * ?r + (1 - filterAlpha d) * filteredMagnitude d"
      using that(3) m_on [OF that(1)] by simp
    then show ?thesis
      unfolding m_on [OF that(1)] using weight [OF that(1)] low by (intro convex_rise)
  qed
  show "\<not> fst (detector_step d s)"
    using nopeak by (simp add: detector_step_def StepDetector_update_def Let_def split_beta)
  show "baseThreshold (snd (detector_step d s)) = baseThreshold d"
    using nopeak base
    by (simp add: detector_step_def StepDetector_update_def Let_def split_beta)
  show "stepCount (snd (detector_step d s)) = stepCount d"
    using nopeak keep
    by (simp add: detector_step_def StepDetector_update_def Let_def split_beta)
  have warmup: "settled (?d2\<lparr>lastMagnitude := ?m\<rparr>)"
    using inv falling weight filt(2) floor(2) base(2)
    by (auto simp add: settled_def keep)
  have later: "settled (?d3\<lparr>lastMagnitude := ?m, lastDelta := ?m - lastMagnitude ?d3\<rparr>)"
    if "\<not> length (magnitudeHistory ?d2) < 5"
    using inv rising that weight filt(1) floor(1) base(1)
    by (auto simp add: settled_def keep)
  show "settled (snd (detector_step d s))"
    using nopeak inv warmup later
    by (simp add: detector_step_def StepDetector_update_def Let_def split_beta)
qed

lemma run_settled:
  "settled d \<Longrightarrow> \<forall>s\<in>set ss. rawMagnitude_of (accel s) < baseThreshold d \<Longrightarrow>
   detector_flags d ss = replicate (length ss) False \<and>
   stepCount (detector_final d ss) = stepCount d"
proof (induction ss arbitrary: d)
  case Nil
  then show ?case by simp
next
  case (Cons s ss)
  have low: "rawMagnitude_of (accel s) < baseThreshold d" using Cons.prems by simp
  note st = step_settled [OF Cons.prems(1) low]
  have "detector_flags (snd (detector_step d s)) ss = replicate (length ss) False \<and>
        stepCount (detector_final (snd (detector_step d s)) ss) = stepCount (snd (detector_step d s))"
    using Cons.prems st by (intro Cons.IH) simp_all
  then show ?case using st by simp
qed

lemma new_settled:
  "settled new_StepDetector" "settled (setFilter en alpha new_StepDetector)"
  by (auto simp: settled_def new_StepDetector_def setFilter_def max_def min_def)

text \<open>
  On a freshly constructed detector, with the filter as constructed or set by any
  \<^verbatim>\<open>setFilter\<close> call, a run in which the magnitude of every acceleration sample
  stays below the base threshold never reports a step: every returned flag is false
  and the step count is 0 after every prefix of the run.
\<close>

lemma fresh_below_base_no_step:
  assumes "\<forall>s\<in>set ss. rawMagnitude_of (accel s) < baseThreshold new_StepDetector"
  shows "detector_flags new_StepDetector ss = replicate (length ss) False
     \<and> (\<forall>n. stepCount (detector_final new_StepDetector (take n ss)) = 0)
     \<and> detector_flags (setFilter en alpha new_StepDetector) ss = replicate (length ss) False
     \<and> (\<forall>n. stepCount (detector_final (setFilter en alpha new_StepDetector) (take n ss)) = 0)"
proof -
  have pre: "\<forall>s\<in>set (take n ss). rawMagnitude_of (accel s) < baseThreshold new_StepDetector" for n
    using assms by (meson in_set_takeD)
  have b: "baseThreshold (setFilter en alpha new_StepDetector) = baseThreshold new_StepDetector"
    by (simp add: setFilter_def)
  have z: "stepCount new_StepDetector = 0" "stepCount (setFilter en alpha new_StepDetector) = 0"
    by (simp_all add: new_StepDetector_def setFilter_def)
  have "stepCount (detector_final new_StepDetector (take n ss)) = 0" for n
    using run_settled [OF new_settled(1) pre [of n]] z by simp
  moreover have "stepCount (detector_final (setFilter en alpha new_StepDetector) (take n ss)) = 0" for n
    using run_settled [OF new_settled(2), of "take n ss"] pre [of n] z b by simp
  moreover have "detector_flags new_StepDetector ss = replicate (length ss) False"
    using run_settled [OF new_settled(1) assms] by simp
  moreover have "detector_flags (setFilter en alpha new_StepDetector) ss = replicate (length ss) False"
    using run_settled [OF new_settled(2), of ss] assms b by simp
  ultimately show ?thesis by blast
qed

lemma configured_settled:
  assumes "setSensitivity level (setFilter en alpha new_StepDetector) = Some d"
    and "level \<noteq> ''low''"
  shows "settled d" and "stepCount d = 0"
proof -
  obtain t where t: "js_divide 11 (js_or (multipliers level) (JSNumber 1.5)) = Some t"
    and d: "d = (setFilter en alpha new_StepDetector)\<lparr>baseThreshold := t\<rparr>"
    using assms(1) by (auto simp add: setSensitivity_def Let_def split: option.splits)
  have "t \<le> 11 / 1.5"
    using t assms(2) by (auto simp add: multipliers_def js_or_def split: if_splits)
  then show "settled d"
    unfolding d by (auto simp add: settled_def setFilter_def new_StepDetector_def max_def min_def)
  show "stepCount d = 0"
    unfolding d by (simp add: setFilter_def new_StepDetector_def)
qed

text \<open>
  The same holds for a detector that is configured by \<^verbatim>\<open>setFilter\<close> and a
  sensitivity level right after its construction, as the page does: every level but
  \<^verbatim>\<open>'low'\<close> lowers the base threshold and leaves it below the dynamic threshold.
\<close>

lemma configured_below_base:
  assumes "setSensitivity level (setFilter en alpha new_StepDetector) = Some d"
    and "level \<noteq> ''low''"
    and "\<forall>s\<in>set ss. rawMagnitude_of (accel s) < baseThreshold d"
  shows "detector_flags d ss = replicate (length ss) False"
    and "stepCount (detector_final d ss) = 0"
  using run_settled [OF configured_settled(1) [OF assms(1,2)] assms(3)]
    configured_settled(2) [OF assms(1,2)]
  by simp_all

text \<open>
  C3. A run in which the magnitude of every acceleration sample stays below the base
  threshold should never report a step. The detector breaks this after
  \<^verbatim>\<open>setSensitivity('low')\<close>: the base threshold becomes 11 while the dynamic
  threshold, which the peak test compares against, stays at 10.5. Every sample of
  \<open>gentle\<close> has a magnitude below 11, and the eighth sample is reported as a step.
\<close>

theorem low_sensitivity_step_below_base:
  "setSensitivity ''low'' new_StepDetector = Some low_detector
   \<and> baseThreshold low_detector = 11
   \<and> map (\<lambda>s. rawMagnitude_of (accel s)) gentle
       = [9.8, 9.8, 9.8, 9.8, 9.8, 10.99, 10.99, 10.6]
   \<and> detector_flags low_detector gentle
       = [False, False, False, False, False, False, False, True]
   \<and> stepCount (detector_final low_detector gentle) = 1"
  by (simp add: setSensitivity_def multipliers_def js_or_def gentle_def low_detector_def
        run_detector)

text \<open>
  The slope that \<^verbatim>\<open>reset()\<close> leaves behind breaks it a second way. With filter
  coefficient 0.1 and medium sensitivity the base threshold is \<open>22/3\<close>; after one
  \<open>stride\<close> and a reset the filter restarts at 9.8 with a stale positive
  \<^verbatim>\<open>lastDelta\<close>, and the fifth of five samples of magnitude 7 is reported as a
  step.
\<close>

lemma medium_sensitivity_detector:
  "setSensitivity ''medium'' (setFilter True 0.1 new_StepDetector) = Some medium_detector"
  by (simp add: setSensitivity_def multipliers_def js_or_def medium_detector_def)

lemma medium_reset_state:
  "baseThreshold medium_reset_detector = 22 / 3
   \<and> dynamicThreshold medium_reset_detector = 22 / 3
   \<and> filteredMagnitude medium_reset_detector = 49 / 5
   \<and> lastDelta medium_reset_detector = 69049 / 250000"
  by (simp add: medium_reset_detector_def medium_detector_def setFilter_def stride_def
        StepDetector_reset_def run_detector)

lemma medium_reset_counts_calm_peak:
  "map (\<lambda>s. rawMagnitude_of (accel s)) calm = [7, 7, 7, 7, 7]
   \<and> detector_flags medium_reset_detector calm = [False, False, False, False, True]"
  by (simp add: medium_reset_detector_def medium_detector_def setFilter_def stride_def
        StepDetector_reset_def calm_def run_detector)

subsection \<open>Debounce of close peaks\<close>

lemma final_append:
  "detector_final d (xs @ ys) = detector_final (detector_final d xs) ys"
  by (induction xs arbitrary: d) simp_all

lemma flags_append:
  "detector_flags d (xs @ ys) = detector_flags d xs @ detector_flags (detector_final d xs) ys"
  by (induction xs arbitrary: d) simp_all

lemma candidates_append:
  "candidates d (xs @ ys) = candidates d xs @ candidates (detector_final d xs) ys"
  by (induction xs arbitrary: d) simp_all

lemma length_candidates: "length (candidates d xs) = length xs"
  by (induction xs arbitrary: d) simp_all

lemma filter_keeps:
  "stepCount (snd (apply_filter d r)) = stepCount d"
  "lastPeakTime (snd (apply_filter d r)) = lastPeakTime d"
  "minPeakInterval (snd (apply_filter d r)) = minPeakInterval d"
  "falsePositiveFilter (snd (apply_filter d r)) = falsePositiveFilter d"
  by (simp_all add: apply_filter_def Let_def)

lemma push_keeps:
  "stepCount (push_history d m) = stepCount d"
  "lastPeakTime (push_history d m) = lastPeakTime d"
  "minPeakInterval (push_history d m) = minPeakInterval d"
  "falsePositiveFilter (push_history d m) = falsePositiveFilter d"
  by (simp_all add: push_history_def Let_def)

lemma threshold_keeps:
  "stepCount (update_threshold d) = stepCount d"
  "lastPeakTime (update_threshold d) = lastPeakTime d"
  "minPeakInterval (update_threshold d) = minPeakInterval d"
  "falsePositiveFilter (update_threshold d) = falsePositiveFilter d"
  by (simp_all add: update_threshold_def Let_def)

lemmas keeps = filter_keeps push_keeps threshold_keeps

lemma step_settings:
  "minPeakInterval (snd (detector_step d s)) = minPeakInterval d"
  "falsePositiveFilter (snd (detector_step d s)) = falsePositiveFilter d"
  by (simp_all add: detector_step_def StepDetector_update_def Let_def split_beta keeps)

lemma step_not_candidate:
  assumes "\<not> candidate d s"
  shows "\<not> fst (detector_step d s)"
    and "stepCount (snd (detector_step d s)) = stepCount d"
    and "lastPeakTime (snd (detector_step d s)) = lastPeakTime d"
  using assms
  by (auto simp: detector_step_def StepDetector_update_def candidate_def Let_def split_beta keeps)

lemma step_accepted:
  assumes "candidate d s" "\<not> falsePositiveFilter d"
    and "minPeakInterval d < clock s - lastPeakTime d"
  shows "fst (detector_step d s)"
    and "stepCount (snd (detector_step d s)) = stepCount d + 1"
    and "lastPeakTime (snd (detector_step d s)) = clock s"
  using assms
  by (auto simp: detector_step_def StepDetector_update_def candidate_def isValidStep_def
        Let_def split_beta keeps)

lemma step_debounced:
  assumes "\<not> minPeakInterval d < clock s - lastPeakTime d"
  shows "\<not> fst (detector_step d s)"
    and "stepCount (snd (detector_step d s)) = stepCount d"
    and "lastPeakTime (snd (detector_step d s)) = lastPeakTime d"
  using assms
  by (simp_all add: detector_step_def StepDetector_update_def Let_def split_beta keeps)

lemma run_without_candidates:
  "candidates d xs = replicate (length xs) False \<Longrightarrow>
   detector_flags d xs = replicate (length xs) False
   \<and> stepCount (detector_final d xs) = stepCount d
   \<and> lastPeakTime (detector_final d xs) = lastPeakTime d
   \<and> minPeakInterval (detector_final d xs) = minPeakInterval d
   \<and> falsePositiveFilter (detector_final d xs) = falsePositiveFilter d"
proof (induction xs arbitrary: d)
  case Nil
  then show ?case by simp
next
  case (Cons s xs)
  from Cons.prems have nc: "\<not> candidate d s"
    and rest: "candidates (snd (detector_step d s)) xs = replicate (length xs) False"
    by simp_all
  show ?case
    using Cons.IH [OF rest] step_not_candidate [OF nc] step_settings [of d s] by simp
qed

text \<open>
  C4. A run that contains exactly two candidate peaks, \<open>p\<close> and \<open>q\<close>, whose
  clock readings are less than \<^verbatim>\<open>minPeakInterval\<close> apart reports exactly one
  step: the first candidate is accepted and the second is rejected by the debounce.
  The first candidate has to lie outside the debounce interval of any step before
  the run; for a fresh detector \<^verbatim>\<open>lastPeakTime\<close> is 0 and the clock counts the
  milliseconds since 1970, so this always holds. The prominence filter is off, as
  the constructor leaves it (no method turns it on).
\<close>

theorem debounce_second_peak:
  assumes two: "candidates d (pre @ [p] @ mid @ [q] @ post) =
            replicate (length pre) False @ [True] @ replicate (length mid) False @ [True]
              @ replicate (length post) False"
    and close: "clock q - clock p < minPeakInterval d"
    and clear: "minPeakInterval d < clock p - lastPeakTime d"
    and nofilter: "\<not> falsePositiveFilter d"
  shows "detector_flags d (pre @ [p] @ mid @ [q] @ post) =
            replicate (length pre) False @ [True] @ replicate (length mid) False @ [False]
              @ replicate (length post) False
     \<and> stepCount (detector_final d (pre @ [p] @ mid @ [q] @ post)) = stepCount d + 1"
proof -
  let ?d1 = "detector_final d pre"
  let ?d2 = "snd (detector_step ?d1 p)"
  let ?d3 = "detector_final ?d2 mid"
  let ?d4 = "snd (detector_step ?d3 q)"
  let ?d5 = "detector_final ?d4 post"
  have c1: "candidates d pre = replicate (length pre) False"
    and c2: "candidate ?d1 p"
    and c3: "candidates ?d2 mid = replicate (length mid) False"
    and c4: "candidate ?d3 q"
    and c5: "candidates ?d4 post = replicate (length post) False"
    using two by (simp_all add: candidates_append length_candidates)
  note r1 = run_without_candidates [OF c1]
  have a2: "fst (detector_step ?d1 p)" "stepCount ?d2 = stepCount d + 1" "lastPeakTime ?d2 = clock p"
    using step_accepted [OF c2] r1 clear nofilter by simp_all
  have s2: "minPeakInterval ?d2 = minPeakInterval d"
    using step_settings(1) [of ?d1 p] r1 by simp
  note r3 = run_without_candidates [OF c3]
  have "\<not> minPeakInterval ?d3 < clock q - lastPeakTime ?d3"
    using r3 a2 s2 close by simp
  note a4 = step_debounced [OF this]
  note r5 = run_without_candidates [OF c5]
  have fin: "detector_final d (pre @ [p] @ mid @ [q] @ post) = ?d5"
    by (simp add: final_append)
  have "stepCount ?d5 = stepCount d + 1"
    using r5 a4 r3 a2 by simp
  moreover have "detector_flags d (pre @ [p] @ mid @ [q] @ post) =
            replicate (length pre) False @ [True] @ replicate (length mid) False @ [False]
              @ replicate (length post) False"
    using r1 a2 r3 a4 r5 by (simp add: flags_append final_append)
  ultimately show ?thesis using fin by simp
qed

theorem debounce_second_peak_witness:
  "candidates new_StepDetector
      (walking @ [vertical 9.8 1600] @ [vertical 13.8 1700] @ [vertical 9.8 1800]
         @ [vertical 9.8 1900])
     = replicate (length walking) False @ [True]
         @ replicate (length [vertical 13.8 1700]) False @ [True]
         @ replicate (length [vertical 9.8 1900]) False
   \<and> clock (vertical 9.8 1800) - clock (vertical 9.8 1600) < minPeakInterval new_StepDetector
   \<and> detector_flags new_StepDetector
      (walking @ [vertical 9.8 1600] @ [vertical 13.8 1700] @ [vertical 9.8 1800]
         @ [vertical 9.8 1900])
     = replicate (length walking) False @ [True]
         @ replicate (length [vertical 13.8 1700]) False @ [False]
         @ replicate (length [vertical 9.8 1900]) False
   \<and> stepCount (detector_final new_StepDetector
      (walking @ [vertical 9.8 1600] @ [vertical 13.8 1700] @ [vertical 9.8 1800]
         @ [vertical 9.8 1900])) = stepCount new_StepDetector + 1"
proof -
  have two: "candidates new_StepDetector
      (walking @ [vertical 9.8 1600] @ [vertical 13.8 1700] @ [vertical 9.8 1800]
         @ [vertical 9.8 1900])
     = replicate (length walking) False @ [True]
         @ replicate (length [vertical 13.8 1700]) False @ [True]
         @ replicate (length [vertical 9.8 1900]) False"
    by (simp add: walking_def candidate_def run_detector)
  have close: "clock (vertical 9.8 1800) - clock (vertical 9.8 1600)
      < minPeakInterval new_StepDetector"
    and clear: "minPeakInterval new_StepDetector
      < clock (vertical 9.8 1600) - lastPeakTime new_StepDetector"
    and nofilter: "\<not> falsePositiveFilter new_StepDetector"
    by (simp_all add: vertical_def new_StepDetector_def)
  show ?thesis
    using two close debounce_second_peak [OF two close clear nofilter] by blast
qed

subsection \<open>Reset and replay\<close>

lemma reset_tracker_state:
  "reset_tracker =
     \<lparr> position = \<lparr> pos_x = 0, pos_y = 8 / 5, pos_z = 0 \<rparr>, stepLength = 13 / 20,
       stepDetector =
         \<lparr> magnitudeHistory = [], historySize = 10, useFilter = True,
           filterAlpha = 1 / 2, filteredMagnitude = 49 / 5,
           rawMagnitudeHistory = [], baseThreshold = 21 / 2,
           dynamicThreshold = 21 / 2, avgMagnitude = 49 / 5,
           magnitudeStdDev = 1, lastPeakTime = 0, minPeakInterval = 500,
           lastMagnitude = 1019 / 80, lastDelta = 17 / 16, stepCount = 0,
           enabled = True, totalSamples = 0, falsePositiveFilter = False \<rparr>,
       yaw = 0 \<rparr>"
  by (simp add: reset_tracker_def fresh_tracker_def stride_def IndoorPositionTracker_reset_def
        StepDetector_reset_def run_tracker)

text \<open>
  After the reset the tracker agrees with a fresh one on every field except
  \<^verbatim>\<open>lastMagnitude\<close> and \<^verbatim>\<open>lastDelta\<close>, which \<^verbatim>\<open>reset()\<close> does not touch.
\<close>

lemma reset_tracker_stale:
  "reset_tracker = fresh_tracker
     \<lparr> stepDetector := (stepDetector fresh_tracker)
         \<lparr> lastMagnitude := 1019 / 80, lastDelta := 17 / 16 \<rparr> \<rparr>"
  by (simp add: reset_tracker_state fresh_tracker_def new_IndoorPositionTracker_def
        new_StepDetector_def)

text \<open>
  C2. Replaying a sequence after \<^verbatim>\<open>reset()\<close> should give the outputs a freshly
  constructed tracker gives. It does not: \<^verbatim>\<open>reset()\<close> keeps \<^verbatim>\<open>lastDelta\<close>, and
  the first sample after the warm-up is tested against that stale slope. A tracker
  that was fed \<open>stride\<close> and reset reports a step at the fifth sample of the
  replayed \<open>stride\<close>; a fresh tracker reports none.
\<close>

theorem reset_replay_differs:
  "map fst (tracker_outputs fresh_tracker (stride 1762128060000))
     = [False, False, False, False, False, False]
   \<and> map fst (tracker_outputs reset_tracker (stride 1762128060000))
     = [False, False, False, False, True, False]
   \<and> getStepCount (tracker_final fresh_tracker (stride 1762128060000)) = 0
   \<and> getStepCount (tracker_final reset_tracker (stride 1762128060000)) = 1
   \<and> tracker_outputs reset_tracker (stride 1762128060000) \<noteq> tracker_outputs fresh_tracker (stride 1762128060000)"
proof -
  have fresh: "map fst (tracker_outputs fresh_tracker (stride 1762128060000))
      = [False, False, False, False, False, False]"
    by (simp add: fresh_tracker_def stride_def run_tracker)
  have replay: "map fst (tracker_outputs reset_tracker (stride 1762128060000))
      = [False, False, False, False, True, False]"
    by (simp add: reset_tracker_state stride_def run_tracker)
  have n0: "getStepCount (tracker_final fresh_tracker (stride 1762128060000)) = 0"
    by (simp add: fresh_tracker_def stride_def run_tracker)
  have n1: "getStepCount (tracker_final reset_tracker (stride 1762128060000)) = 1"
    by (simp add: reset_tracker_state stride_def run_tracker)
  have "tracker_outputs reset_tracker (stride 1762128060000) \<noteq> tracker_outputs fresh_tracker (stride 1762128060000)"
  proof
    assume "tracker_outputs reset_tracker (stride 1762128060000) = tracker_outputs fresh_tracker (stride 1762128060000)"
    then have "map fst (tracker_outputs reset_tracker (stride 1762128060000))
        = map fst (tracker_outputs fresh_tracker (stride 1762128060000))"
      by simp
    then show False unfolding fresh replay by simp
  qed
  then show ?thesis using fresh replay n0 n1 by blast
qed

subsection \<open>The floor of the dynamic threshold\<close>

lemma update_keeps_floor:
  assumes "baseThreshold d \<le> dynamicThreshold d"
  shows "baseThreshold (snd (detector_step d s)) \<le> dynamicThreshold (snd (detector_step d s))"
proof -
  have f: "baseThreshold (snd (apply_filter d r)) = baseThreshold d"
    "dynamicThreshold (snd (apply_filter d r)) = dynamicThreshold d" for r
    by (simp_all add: apply_filter_def Let_def)
  have p: "baseThreshold (push_history e m) = baseThreshold e"
    "dynamicThreshold (push_history e m) = dynamicThreshold e" for e m
    by (simp_all add: push_history_def Let_def)
  have t: "baseThreshold (update_threshold e) = baseThreshold e"
    "baseThreshold e \<le> dynamicThreshold e \<Longrightarrow>
       baseThreshold e \<le> dynamicThreshold (update_threshold e)" for e
    by (simp_all add: update_threshold_def Let_def)
  show ?thesis
    using assms t(2) [of "push_history (snd (apply_filter d (rawMagnitude_of (accel s))))
        (fst (apply_filter d (rawMagnitude_of (accel s))))"]
    by (simp add: detector_step_def StepDetector_update_def Let_def split_beta f p t(1))
qed

lemma reset_restores_floor:
  "baseThreshold (StepDetector_reset d) \<le> dynamicThreshold (StepDetector_reset d)"
  by (simp add: StepDetector_reset_def)

lemma setFilter_keeps_floor:
  "baseThreshold d \<le> dynamicThreshold d \<Longrightarrow>
   baseThreshold (setFilter en alpha d) \<le> dynamicThreshold (setFilter en alpha d)"
  by (simp add: setFilter_def)

text \<open>
  C6. The dynamic threshold should never be below the configured base threshold.
  \<^verbatim>\<open>update\<close>, \<^verbatim>\<open>reset\<close> and \<^verbatim>\<open>setFilter\<close> keep that floor, but
  \<^verbatim>\<open>setSensitivity\<close> assigns the base threshold alone: on a fresh detector
  \<^verbatim>\<open>setSensitivity('low')\<close> raises the base threshold to 11 while the dynamic
  threshold stays at 10.5.
\<close>

theorem low_sensitivity_breaks_floor:
  "map_option baseThreshold (setSensitivity ''low'' new_StepDetector) = Some 11
   \<and> map_option dynamicThreshold (setSensitivity ''low'' new_StepDetector) = Some 10.5
   \<and> map_option (\<lambda>d. baseThreshold d \<le> dynamicThreshold d)
        (setSensitivity ''low'' new_StepDetector) = Some False"
  by (simp add: setSensitivity_def multipliers_def js_or_def new_StepDetector_def)

lemma low_sensitivity_detector:
  "setSensitivity ''low'' new_StepDetector = Some low_detector"
  by (simp add: setSensitivity_def multipliers_def js_or_def low_detector_def)

subsection \<open>Sensitivity levels\<close>

lemma setSensitivity_levels:
  "map_option baseThreshold (setSensitivity ''low'' d) = Some 11"
  "map_option baseThreshold (setSensitivity ''medium'' d) = Some (11 / 1.5)"
  "map_option baseThreshold (setSensitivity ''high'' d) = Some 5.5"
  "level \<notin> {''low'', ''medium'', ''high''} \<Longrightarrow> level \<notin> set Object_prototype_keys \<Longrightarrow>
     map_option baseThreshold (setSensitivity level d) = Some (11 / 1.5)"
  by (simp_all add: setSensitivity_def multipliers_def js_or_def)

text \<open>
  C10. A level outside low, medium and high should fall back to the multiplier 1.5.
  It does for a name the object literal does not have at all, such as
  \<^verbatim>\<open>'quiet'\<close>. For the name of a property every object inherits, such as
  \<^verbatim>\<open>'constructor'\<close>, the read returns a function, the fallback \<^verbatim>\<open>|| 1.5\<close> is
  skipped and \<^verbatim>\<open>11 / multiplier\<close> is NaN: the base threshold is no number.
\<close>

theorem inherited_level_gives_no_threshold:
  "multipliers ''constructor'' = JSObject
   \<and> js_or (multipliers ''constructor'') (JSNumber 1.5) = JSObject
   \<and> setSensitivity ''constructor'' new_StepDetector = None
   \<and> map_option baseThreshold (setSensitivity ''quiet'' new_StepDetector) = Some (11 / 1.5)"
  by (simp add: setSensitivity_def multipliers_def Object_prototype_keys_def js_or_def)

end
